theory Spec2Isabelle
  imports Main "HOL-Library.Word" "HOL-Library.AList"
begin

section \<open>Data model\<close>

text \<open>
  Go's \<open>int\<close> on a 64-bit platform: a 64-bit word read as signed, so \<open>+\<close> wraps and the
  comparisons of the source are the signed ones (\<open><s\<close>, \<open>\<le>s\<close>).
\<close>

type_synonym go_int = "64 word"

type_synonym bytes = string

text \<open>
  \<open>url.Values\<close> and \<open>http.Header\<close> are both \<open>map[string][]string\<close>; the model keeps the
  entries in an association list read with \<open>map_of\<close>.
\<close>

type_synonym Values = "(string \<times> string list) list"

text \<open>
  \<open>Values.Get\<close>: the first value stored under the key, the empty string when there is none.
\<close>

definition Values_Get :: "Values \<Rightarrow> string \<Rightarrow> string" where
  "Values_Get v key = (case map_of v key of None \<Rightarrow> [] | Some [] \<Rightarrow> [] | Some (x # _) \<Rightarrow> x)"

text \<open>
  The parts of \<open>http.Request\<close> the handler reads: \<open>r.Method\<close>, \<open>r.URL.Path\<close>, the parsed
  \<open>r.URL.Query()\<close>, \<open>r.Header\<close> and \<open>r.Body\<close> (\<open>None\<close> is a nil body, \<open>Some b\<close> a body
  whose stream holds the bytes \<open>b\<close>).
\<close>

record http_Request =
  reqMethod :: string
  reqURLPath :: string
  reqURLQuery :: Values
  reqHeader :: Values
  reqBody :: "bytes option"

text \<open>
  The calls the code makes on an \<open>http.ResponseWriter\<close>: \<open>w.Header().Add(k, v)\<close>,
  \<open>w.WriteHeader(code)\<close> and \<open>w.Write(b)\<close> (\<open>fmt.Fprintf(w, ...)\<close> is a \<open>Write\<close> of the
  formatted text). A run of the handler is modelled by the calls it makes, each taken to
  return.
\<close>

datatype WriterCall = HeaderAdd string string | WriteHeader int | Write bytes

text \<open>
  A \<open>Responder\<close> is caller-supplied code run on the live writer and request. The model keeps
  what the handler can observe of it: the calls it made on the writer, in order, and whether it
  returned (\<open>None\<close>) or panicked (\<open>Some v\<close>, with \<open>v\<close> the panic value as \<open>%v\<close> prints it).
\<close>

type_synonym Responder = "http_Request \<Rightarrow> WriterCall list \<times> string option"

record Expectation =
  Method :: string
  Path :: string
  StatusCode :: int
  Body :: bytes
  Header :: Values
  Times :: go_int
  MatchedTimes :: go_int
  DelayTime :: int
  Func :: "Responder option"
  QueryParams :: "(string \<times> string) list"

record CapturedRequest =
  Request :: http_Request
  BodyContent :: bytes
  CapStatusCode :: int
  ResponseBody :: bytes

text \<open>
  The \<open>Server\<close> fields the request lifecycle and the assertion helpers use. \<open>OnRequest\<close> is an
  optional callback; like a responder it returns or panics, and neither is taken to write the
  fields of the server or of its expectations. The transport (\<open>httptest.Server\<close>), the
  WebSocket upgrader and the mutex are not state of the model; the lock operations appear as
  events of the handler.
\<close>

record Server =
  Expectations :: "Expectation list"
  Requests :: "CapturedRequest list"
  MaxRequestBodySize :: int
  OnRequest :: "(CapturedRequest \<Rightarrow> string option) option"

definition createServer :: Server where
  "createServer = \<lparr>Expectations = [], Requests = [], MaxRequestBodySize = 10 * 1024 * 1024,
     OnRequest = None\<rparr>"

section \<open>Expectation setters\<close>

definition Response :: "int \<Rightarrow> string \<Rightarrow> Expectation \<Rightarrow> Expectation" where
  "Response status body e = e\<lparr>StatusCode := status, Body := body\<rparr>"

definition TimesSet :: "go_int \<Rightarrow> Expectation \<Rightarrow> Expectation" where
  "TimesSet n e = e\<lparr>Times := n\<rparr>"

definition Delay :: "int \<Rightarrow> Expectation \<Rightarrow> Expectation" where
  "Delay d e = e\<lparr>DelayTime := d\<rparr>"

definition RespondWith :: "Responder \<Rightarrow> Expectation \<Rightarrow> Expectation" where
  "RespondWith f e = e\<lparr>Func := Some f\<rparr>"

definition WithQuery :: "string \<Rightarrow> string \<Rightarrow> Expectation \<Rightarrow> Expectation" where
  "WithQuery key val e = e\<lparr>QueryParams := AList.update key val (QueryParams e)\<rparr>"

section \<open>The match engine\<close>

text \<open>The loop over \<open>exp.QueryParams\<close> in \<open>matchExpectation\<close>.\<close>

fun queryParamsMatch :: "(string \<times> string) list \<Rightarrow> Values \<Rightarrow> bool" where
  "queryParamsMatch [] query = True"
| "queryParamsMatch ((k, v) # rest) query =
     (if Values_Get query k \<noteq> v then False else queryParamsMatch rest query)"

definition matchExpectation :: "Expectation \<Rightarrow> http_Request \<Rightarrow> bool" where
  "matchExpectation e r =
     (if Method e \<noteq> [] \<and> Method e \<noteq> reqMethod r then False
      else if Path e \<noteq> [] \<and> Path e \<noteq> reqURLPath r then False
      else if 0 <s Times e \<and> Times e \<le>s MatchedTimes e then False
      else queryParamsMatch (QueryParams e) (reqURLQuery r))"

text \<open>
  The handler's loop \<open>for _, exp := range s.Expectations\<close> leaves at the first expectation
  that \<open>matchExpectation\<close> accepts; \<open>firstMatch\<close> is the index of that expectation.
\<close>

fun firstMatch :: "Expectation list \<Rightarrow> http_Request \<Rightarrow> nat option" where
  "firstMatch [] r = None"
| "firstMatch (e # es) r =
     (if matchExpectation e r then Some 0 else map_option Suc (firstMatch es r))"

section \<open>The request lifecycle\<close>

text \<open>
  What one run of the handler does besides changing the server's fields, as the sequence of
  the effects of its statements: \<open>s.mu.Lock()\<close>, \<open>s.mu.Unlock()\<close>, \<open>io.ReadAll(r.Body)\<close>,
  a successful \<open>matchExpectation\<close> with \<open>exp.MatchedTimes++\<close> on the expectation at an index,
  \<open>time.Sleep(delay)\<close>, \<open>s.OnRequest(captured)\<close>, a call on the response writer, and
  \<open>s.Requests = append(s.Requests, captured)\<close>. A run is one request handled from the first
  statement to the last; what other requests do while it sleeps is not part of it.
\<close>

datatype Event =
    Lock
  | Unlock
  | ReadBody
  | Matched nat
  | Sleep int
  | Notify CapturedRequest
  | W WriterCall
  | Append CapturedRequest

text \<open>
  \<open>io.ReadAll\<close> on the body, wrapped by \<open>http.MaxBytesReader\<close> when the limit is positive:
  the wrapped reader fails once the stream holds more bytes than the limit.
\<close>

definition ReadAll :: "int \<Rightarrow> bytes \<Rightarrow> string + bytes" where
  "ReadAll limit b =
     (if limit > 0 \<and> int (length b) > limit then Inl ''http: request body too large''
      else Inr b)"

definition notify :: "Server \<Rightarrow> CapturedRequest \<Rightarrow> Event list \<times> string option" where
  "notify s captured =
     (case OnRequest s of None \<Rightarrow> ([], None) | Some f \<Rightarrow> ([Notify captured], f captured))"

definition headerAdds :: "Values \<Rightarrow> WriterCall list" where
  "headerAdds headers = concat (map (\<lambda>(k, vv). map (HeaderAdd k) vv) headers)"

text \<open>The body of the loop once \<open>matchExpectation\<close> has accepted the expectation at \<open>i\<close>.\<close>

definition matched ::
  "Server \<Rightarrow> http_Request \<Rightarrow> CapturedRequest \<Rightarrow> nat \<Rightarrow> Server \<times> Event list \<times> string option" where
  "matched s r captured0 i =
     (let e = Expectations s ! i;
          s1 = s\<lparr>Expectations := (Expectations s)[i := e\<lparr>MatchedTimes := MatchedTimes e + 1\<rparr>]\<rparr>;
          delay = DelayTime e;
          responder = Func e;
          headers = Header e;
          statusCode = StatusCode e;
          body = Body e;
          captured = captured0\<lparr>CapStatusCode := statusCode, ResponseBody := body\<rparr>;
          ev1 = Matched i # (if delay > 0 then [Unlock, Sleep delay, Lock] else []);
          (ev2, p) = notify s1 captured
      in case p of
           Some v \<Rightarrow> (s1, ev1 @ ev2, Some v)
         | None \<Rightarrow>
             (case responder of
                Some f \<Rightarrow> (let (calls, p') = f r in (s1, ev1 @ ev2 @ map W calls, p'))
              | None \<Rightarrow>
                  (s1\<lparr>Requests := Requests s1 @ [captured]\<rparr>,
                   ev1 @ ev2 @ map W (headerAdds headers)
                     @ [W (WriteHeader statusCode), W (Write body), Append captured],
                   None)))"

text \<open>The default response after the loop.\<close>

definition unmatched ::
  "Server \<Rightarrow> http_Request \<Rightarrow> CapturedRequest \<Rightarrow> Server \<times> Event list \<times> string option" where
  "unmatched s r captured0 =
     (let captured = captured0\<lparr>CapStatusCode := 404,
            ResponseBody := ''aduket: no expectation matched for '' @ reqMethod r @ '' '' @ reqURLPath r\<rparr>;
          (ev, p) = notify s captured
      in case p of
           Some v \<Rightarrow> (s, ev, Some v)
         | None \<Rightarrow>
             (s\<lparr>Requests := Requests s @ [captured]\<rparr>,
              ev @ [W (WriteHeader 404), W (Write (ResponseBody captured)), Append captured],
              None))"

definition dispatch ::
  "Server \<Rightarrow> http_Request \<Rightarrow> bytes \<Rightarrow> Server \<times> Event list \<times> string option" where
  "dispatch s r bodyBytes =
     (let captured = \<lparr>Request = r, BodyContent = bodyBytes, CapStatusCode = 0, ResponseBody = []\<rparr>
      in case firstMatch (Expectations s) r of
           Some i \<Rightarrow> matched s r captured i
         | None \<Rightarrow> unmatched s r captured)"

text \<open>
  The handler between its two deferred calls: the new server state, the effects, and the
  panic value when a callback panicked.
\<close>

definition handlerBody :: "Server \<Rightarrow> http_Request \<Rightarrow> Server \<times> Event list \<times> string option" where
  "handlerBody s r =
     (case reqBody r of
        None \<Rightarrow> dispatch s r []
      | Some b \<Rightarrow>
          (case ReadAll (MaxRequestBodySize s) b of
             Inl err \<Rightarrow>
               (s, [ReadBody, W (WriteHeader 413),
                    W (Write (''aduket: request body too large: '' @ err))], None)
           | Inr bodyBytes \<Rightarrow>
               (case dispatch s (r\<lparr>reqBody := Some bodyBytes\<rparr>) bodyBytes of
                  (s', evs, p) \<Rightarrow> (s', ReadBody # evs, p))))"

text \<open>
  The whole handler. The deferred calls run last-registered first: \<open>s.mu.Unlock()\<close>, then the
  recovery function, which writes only when \<open>recover()\<close> returned a panic value.
\<close>

definition handler :: "Server \<Rightarrow> http_Request \<Rightarrow> Server \<times> Event list" where
  "handler s r =
     (case handlerBody s r of
        (s', evs, p) \<Rightarrow>
          (s', Lock # evs @ Unlock #
               (case p of
                  None \<Rightarrow> []
                | Some v \<Rightarrow> [W (WriteHeader 500), W (Write (''mock server panic: '' @ v))])))"

section \<open>The response a sequence of writer calls produces\<close>

fun writes :: "Event list \<Rightarrow> WriterCall list" where
  "writes [] = []"
| "writes (W c # evs) = c # writes evs"
| "writes (_ # evs) = writes evs"

fun notified :: "Event list \<Rightarrow> CapturedRequest list" where
  "notified [] = []"
| "notified (Notify c # evs) = c # notified evs"
| "notified (_ # evs) = notified evs"

text \<open>
  The contract of \<open>http.ResponseWriter\<close>: the status line is fixed by the first
  \<open>WriteHeader\<close>, or as 200 by the first \<open>Write\<close> when no \<open>WriteHeader\<close> came before it (and
  200 when the handler wrote nothing); a later \<open>WriteHeader\<close> is ignored. The body is what the
  \<open>Write\<close> calls sent, in order.
\<close>

fun statusOf :: "WriterCall list \<Rightarrow> int" where
  "statusOf [] = 200"
| "statusOf (WriteHeader c # cs) = c"
| "statusOf (Write b # cs) = 200"
| "statusOf (HeaderAdd k v # cs) = statusOf cs"

fun bodyOf :: "WriterCall list \<Rightarrow> bytes" where
  "bodyOf [] = []"
| "bodyOf (Write b # cs) = b @ bodyOf cs"
| "bodyOf (_ # cs) = bodyOf cs"

section \<open>Registration, verification, reset and the ledger accessors\<close>

text \<open>
  \<open>Expect\<close> returns the server and either the panic value or the new expectation, named by
  its index in \<open>s.Expectations\<close> (the source returns the pointer it appended).
\<close>

definition Expect :: "Server \<Rightarrow> string \<Rightarrow> string \<Rightarrow> Server \<times> (string + nat)" where
  "Expect s method path =
     (if method = [] then (s, Inl ''aduket: method cannot be empty'')
      else
        (let e = \<lparr>Method = method, Path = path, StatusCode = 0, Body = [], Header = [],
                  Times = 0, MatchedTimes = 0, DelayTime = 0, Func = None, QueryParams = []\<rparr>
         in (s\<lparr>Expectations := Expectations s @ [e]\<rparr>, Inr (length (Expectations s)))))"

text \<open>
  \<open>testing.T\<close> as the list of the failures reported through \<open>t.Errorf\<close>, each with the
  arguments of its format string; \<open>t.Failed()\<close> holds when the list is not empty.
\<close>

datatype failure =
    NotCalled string string
  | CalledFewer string string go_int go_int

type_synonym testing_T = "failure list"

definition Failed :: "testing_T \<Rightarrow> bool" where
  "Failed t = (t \<noteq> [])"

text \<open>The body of the loop of \<open>Verify\<close>.\<close>

definition verifyOne :: "Expectation \<Rightarrow> testing_T \<Rightarrow> testing_T" where
  "verifyOne e t =
     (if MatchedTimes e = 0 then t @ [NotCalled (Method e) (Path e)]
      else if 0 <s Times e \<and> MatchedTimes e <s Times e
        then t @ [CalledFewer (Method e) (Path e) (Times e) (MatchedTimes e)]
      else t)"

definition Verify :: "Server \<Rightarrow> testing_T \<Rightarrow> Server \<times> testing_T" where
  "Verify s t = (s, fold verifyOne (Expectations s) t)"

definition Reset :: "Server \<Rightarrow> Server" where
  "Reset s = s\<lparr>Expectations := [], Requests := []\<rparr>"

definition RequestCount :: "Server \<Rightarrow> go_int" where
  "RequestCount s = of_nat (length (Requests s))"

section \<open>Sequences of requests\<close>

fun serve :: "Server \<Rightarrow> http_Request list \<Rightarrow> Server" where
  "serve s [] = s"
| "serve s (r # rs) = serve (fst (handler s r)) rs"


section \<open>The match conditions in the words of the specification\<close>



section \<open>Which requests are rejected, and which expectation a request is matched with\<close>

text \<open>The body is longer than a positive \<open>MaxRequestBodySize\<close>.\<close>

definition oversized :: "Server \<Rightarrow> http_Request \<Rightarrow> bool" where
  "oversized s r =
     (case reqBody r of
        None \<Rightarrow> False
      | Some b \<Rightarrow> 0 < MaxRequestBodySize s \<and> MaxRequestBodySize s < int (length b))"

text \<open>The counter increment of the handler, on the expectation at index \<open>i\<close>.\<close>

definition bump :: "nat \<Rightarrow> Expectation list \<Rightarrow> Expectation list" where
  "bump i es = es[i := (es ! i)\<lparr>MatchedTimes := MatchedTimes (es ! i) + 1\<rparr>]"

text \<open>The bytes the handler reads from the request: none from a nil body.\<close>

definition bodyBytes :: "http_Request \<Rightarrow> bytes" where
  "bodyBytes r = (case reqBody r of None \<Rightarrow> [] | Some b \<Rightarrow> b)"

text \<open>
  A setter called on the \<open>*Expectation\<close> that \<open>Expect\<close> returned mutates the element of
  \<open>s.Expectations\<close> at that index.
\<close>

definition configure :: "nat \<Rightarrow> (Expectation \<Rightarrow> Expectation) \<Rightarrow> Server \<Rightarrow> Server" where
  "configure i f s = s\<lparr>Expectations := (Expectations s)[i := f (Expectations s ! i)]\<rparr>"


section \<open>The lock along a run of the handler\<close>

text \<open>
  Each event of a run paired with whether \<open>s.mu\<close> is held when the event happens, from the
  state \<open>h\<close> of the lock before the run.
\<close>

fun underLock :: "bool \<Rightarrow> Event list \<Rightarrow> (Event \<times> bool) list" where
  "underLock h [] = []"
| "underLock h (Lock # evs) = (Lock, h) # underLock True evs"
| "underLock h (Unlock # evs) = (Unlock, h) # underLock False evs"
| "underLock h (e # evs) = (e, h) # underLock h evs"

fun heldAfter :: "bool \<Rightarrow> Event list \<Rightarrow> bool" where
  "heldAfter h [] = h"
| "heldAfter h (Lock # evs) = heldAfter True evs"
| "heldAfter h (Unlock # evs) = heldAfter False evs"
| "heldAfter h (e # evs) = heldAfter h evs"

section \<open>Endpoints and requests of the test suite\<close>

definition request :: "string \<Rightarrow> string \<Rightarrow> Values \<Rightarrow> bytes \<Rightarrow> http_Request" where
  "request m p q b =
     \<lparr>reqMethod = m, reqURLPath = p, reqURLQuery = q, reqHeader = [], reqBody = Some b\<rparr>"

text \<open>\<open>TestServer\<close>: \<open>s.Expect("GET", "/hello").Response(http.StatusOK, "world")\<close>.\<close>

definition helloServer :: Server where
  "helloServer = configure 0 (Response 200 ''world'') (fst (Expect createServer ''GET'' ''/hello''))"

definition getHello :: http_Request where
  "getHello = request ''GET'' ''/hello'' [] []"






text \<open>\<open>TestBodySizeLimit\<close>: a limit of 100 bytes and a body of 200.\<close>

definition largeServer :: Server where
  "largeServer =
     (configure 0 (Response 200 ''ok'') (fst (Expect createServer ''POST'' ''/large'')))
       \<lparr>MaxRequestBodySize := 100\<rparr>"

definition postLarge :: http_Request where
  "postLarge = request ''POST'' ''/large'' [] (replicate 200 (CHR ''a''))"

text \<open>\<open>TestDynamicResponder\<close>.\<close>

definition echoResponder :: Responder where
  "echoResponder r = ([WriteHeader 202, Write ''dynamic''], None)"

definition echoServer :: Server where
  "echoServer = configure 0 (RespondWith echoResponder) (fst (Expect createServer ''POST'' ''/echo''))"

definition postEcho :: http_Request where
  "postEcho = request ''POST'' ''/echo'' [] []"






text \<open>\<open>TestVerify\<close>.\<close>

definition pingServer :: Server where
  "pingServer = configure 0 (Response 200 ''pong'') (fst (Expect createServer ''GET'' ''/ping''))"

definition getPing :: http_Request where
  "getPing = request ''GET'' ''/ping'' [] []"



section \<open>Faults and the lock discipline\<close>



text \<open>
  An event in its place with respect to \<open>s.mu\<close>: the lock is taken while free and released
  while held, the handler sleeps while the lock is free, and everything else (reading the
  body, matching and counting, notifying the observer, writing the response, appending to the
  ledger) happens while it is held.
\<close>

fun inPlace :: "Event \<times> bool \<Rightarrow> bool" where
  "inPlace (Lock, h) = (\<not> h)"
| "inPlace (Unlock, h) = h"
| "inPlace (Sleep d, h) = (\<not> h)"
| "inPlace (e, h) = h"

section \<open>Basic facts about the handler\<close>

lemmas run_defs = handler_def handlerBody_def dispatch_def matched_def unmatched_def notify_def
  ReadAll_def headerAdds_def Let_def matchExpectation_def Expect_def createServer_def
  Response_def TimesSet_def Delay_def RespondWith_def WithQuery_def configure_def request_def
  word_sless_alt word_sle_eq

lemma matchExpectation_reqBody [simp]:
  "matchExpectation e (r\<lparr>reqBody := b\<rparr>) = matchExpectation e r"
  by (simp add: matchExpectation_def)

lemma firstMatch_reqBody [simp]:
  "firstMatch es (r\<lparr>reqBody := b\<rparr>) = firstMatch es r"
  by (induction es) simp_all

lemma handlerBody_oversized:
  "oversized s r \<Longrightarrow>
   handlerBody s r = (s, [ReadBody, W (WriteHeader 413),
      W (Write ''aduket: request body too large: http: request body too large'')], None)"
  by (auto simp: oversized_def handlerBody_def ReadAll_def split: option.splits)

lemma handlerBody_accepted:
  "\<not> oversized s r \<Longrightarrow>
   handlerBody s r =
     (fst (dispatch s r (bodyBytes r)),
      (if reqBody r = None then [] else [ReadBody]) @ fst (snd (dispatch s r (bodyBytes r))),
      snd (snd (dispatch s r (bodyBytes r))))"
proof (cases "reqBody r")
  case None
  then show ?thesis by (simp add: handlerBody_def bodyBytes_def)
next
  case (Some b)
  then have eq: "r\<lparr>reqBody := Some b\<rparr> = r" by simp
  assume "\<not> oversized s r"
  with Some show ?thesis
    by (auto simp: oversized_def handlerBody_def ReadAll_def bodyBytes_def case_prod_beta eq)
qed

lemma handler_unfold:
  "handler s r =
     (fst (handlerBody s r),
      Lock # fst (snd (handlerBody s r)) @ Unlock #
        (case snd (snd (handlerBody s r)) of
           None \<Rightarrow> []
         | Some v \<Rightarrow> [W (WriteHeader 500), W (Write (''mock server panic: '' @ v))]))"
  by (simp add: handler_def case_prod_beta)

lemma matched_Expectations:
  "Expectations (fst (matched s r c i)) = bump i (Expectations s)"
  by (simp add: matched_def bump_def Let_def split: prod.splits option.splits)

lemma unmatched_Expectations:
  "Expectations (fst (unmatched s r c)) = Expectations s"
  by (simp add: unmatched_def Let_def split: prod.splits option.splits)

lemma dispatch_Expectations:
  "Expectations (fst (dispatch s r b)) =
     (case firstMatch (Expectations s) r of None \<Rightarrow> Expectations s | Some i \<Rightarrow> bump i (Expectations s))"
  by (simp add: dispatch_def matched_Expectations unmatched_Expectations split: option.splits)

lemma handler_Expectations:
  "Expectations (fst (handler s r)) =
     (if oversized s r then Expectations s
      else case firstMatch (Expectations s) r of
             None \<Rightarrow> Expectations s
           | Some i \<Rightarrow> bump i (Expectations s))"
  by (simp add: handler_unfold handlerBody_oversized handlerBody_accepted dispatch_Expectations)

lemma Matched_in_matched:
  "Matched j \<in> set (fst (snd (matched s r c i))) \<longleftrightarrow> j = i"
  by (auto simp: matched_def notify_def Let_def headerAdds_def split: prod.splits option.splits)

lemma Matched_in_unmatched:
  "Matched j \<notin> set (fst (snd (unmatched s r c)))"
  by (auto simp: unmatched_def notify_def Let_def split: prod.splits option.splits)

lemma Matched_in_dispatch:
  "Matched j \<in> set (fst (snd (dispatch s r b))) \<longleftrightarrow> firstMatch (Expectations s) r = Some j"
  by (auto simp: dispatch_def Let_def Matched_in_matched Matched_in_unmatched split: option.splits)

lemma Matched_in_handler:
  "Matched j \<in> set (snd (handler s r)) \<longleftrightarrow>
     \<not> oversized s r \<and> firstMatch (Expectations s) r = Some j"
  by (cases "oversized s r")
     (auto simp: handler_unfold handlerBody_oversized handlerBody_accepted Matched_in_dispatch
           split: option.splits)





lemma writes_append [simp]: "writes (xs @ ys) = writes xs @ writes ys"
  by (induction xs rule: writes.induct) simp_all

lemma writes_map_W [simp]: "writes (map W cs) = cs"
  by (induction cs) simp_all

lemma notified_append [simp]: "notified (xs @ ys) = notified xs @ notified ys"
  by (induction xs rule: notified.induct) simp_all


section \<open>The match engine selects the first eligible expectation\<close>




section \<open>An oversized body is rejected before the match step\<close>

text \<open>
  C3. For every request whose body is longer than a positive \<open>MaxRequestBodySize\<close>, the
  handler leaves the whole server state as it was (no \<open>MatchedTimes\<close> changes, nothing is
  appended to \<open>Requests\<close>), its run is the lock, the read, the two writes of the rejection and
  the unlock, the response is 413 with the diagnostic text, the observer is not invoked and no
  expectation is matched.
\<close>

theorem C3_oversized_rejected:
  assumes "reqBody r = Some b" and "0 < MaxRequestBodySize s"
    and "MaxRequestBodySize s < int (length b)"
  shows "fst (handler s r) = s
    \<and> snd (handler s r) =
        [Lock, ReadBody, W (WriteHeader 413),
         W (Write ''aduket: request body too large: http: request body too large''), Unlock]
    \<and> statusOf (writes (snd (handler s r))) = 413
    \<and> bodyOf (writes (snd (handler s r))) =
        ''aduket: request body too large: http: request body too large''
    \<and> notified (snd (handler s r)) = []
    \<and> (\<forall>i. Matched i \<notin> set (snd (handler s r)))
    \<and> (\<forall>c. Append c \<notin> set (snd (handler s r)))"
proof -
  from assms have "oversized s r" by (simp add: oversized_def)
  then have "handler s r = (s,
        [Lock, ReadBody, W (WriteHeader 413),
         W (Write ''aduket: request body too large: http: request body too large''), Unlock])"
    by (simp add: handler_unfold handlerBody_oversized)
  then show ?thesis by simp
qed

text \<open>C3 on \<open>TestBodySizeLimit\<close>: a body of 200 bytes against a limit of 100.\<close>

theorem C3_oversized_rejected_witness:
  "reqBody postLarge = Some (replicate 200 (CHR ''a''))
   \<and> 0 < MaxRequestBodySize largeServer
   \<and> MaxRequestBodySize largeServer < int (length (replicate 200 (CHR ''a'')))
   \<and> fst (handler largeServer postLarge) = largeServer
   \<and> statusOf (writes (snd (handler largeServer postLarge))) = 413
   \<and> notified (snd (handler largeServer postLarge)) = []"
proof -
  have b: "reqBody postLarge = Some (replicate 200 (CHR ''a''))"
    by (simp add: postLarge_def request_def)
  have lim: "MaxRequestBodySize largeServer = 100"
    by (simp add: largeServer_def configure_def Expect_def createServer_def)
  have pos: "0 < MaxRequestBodySize largeServer" and
    big: "MaxRequestBodySize largeServer < int (length (replicate 200 (CHR ''a'')))"
    by (simp_all add: lim)
  from C3_oversized_rejected[OF b pos big] b pos big show ?thesis by simp
qed

section \<open>A request answered by a dynamic responder is not recorded\<close>

text \<open>
  C4 at \<open>TestDynamicResponder\<close>. The request is matched with the expectation and answered
  202 by its responder, and the handler returns right after the responder: \<open>Requests\<close> is
  still empty and \<open>RequestCount\<close> is 0. The static path of \<open>TestServer\<close> records its request.
\<close>

theorem C4_responder_not_recorded:
  "firstMatch (Expectations echoServer) postEcho = Some 0
   \<and> statusOf (writes (snd (handler echoServer postEcho))) = 202
   \<and> Requests (fst (handler echoServer postEcho)) = []
   \<and> RequestCount (fst (handler echoServer postEcho)) = 0
   \<and> RequestCount (fst (handler helloServer getHello)) = 1"
  by (simp add: run_defs echoServer_def postEcho_def echoResponder_def RequestCount_def
      helloServer_def getHello_def)

section \<open>Registration\<close>

text \<open>
  C7. \<open>Expect\<close> with an empty method panics and leaves the server as it was. With any other
  method it returns the new expectation, which is the one element appended to the end of
  \<open>Expectations\<close>: the given method and path, empty headers, zero counters and status, no
  delay, no responder, no query constraint. The expectations registered before, the ledger
  and the configuration are unchanged.
\<close>

theorem C7_Expect:
  "Expect s [] path = (s, Inl ''aduket: method cannot be empty'')
   \<and> (method \<noteq> [] \<longrightarrow>
        snd (Expect s method path) = Inr (length (Expectations s))
        \<and> length (Expectations (fst (Expect s method path))) = Suc (length (Expectations s))
        \<and> take (length (Expectations s)) (Expectations (fst (Expect s method path))) = Expectations s
        \<and> Expectations (fst (Expect s method path)) ! length (Expectations s) =
            \<lparr>Method = method, Path = path, StatusCode = 0, Body = [], Header = [], Times = 0,
             MatchedTimes = 0, DelayTime = 0, Func = None, QueryParams = []\<rparr>
        \<and> Requests (fst (Expect s method path)) = Requests s
        \<and> MaxRequestBodySize (fst (Expect s method path)) = MaxRequestBodySize s
        \<and> OnRequest (fst (Expect s method path)) = OnRequest s)"
  by (simp add: Expect_def Let_def)

text \<open>C7 on the registration of \<open>TestServer\<close>.\<close>

theorem C7_Expect_witness:
  "''GET'' \<noteq> []
   \<and> snd (Expect createServer ''GET'' ''/hello'') = Inr 0
   \<and> Method (Expectations (fst (Expect createServer ''GET'' ''/hello'')) ! 0) = ''GET''
   \<and> Path (Expectations (fst (Expect createServer ''GET'' ''/hello'')) ! 0) = ''/hello''
   \<and> length (Expectations (fst (Expect createServer ''GET'' ''/hello''))) = 1"
proof -
  have ne: "''GET'' \<noteq> []" by simp
  have len: "length (Expectations createServer) = 0" by (simp add: createServer_def)
  from C7_Expect[of createServer "''/hello''" "''GET''"] ne len show ?thesis by simp
qed

section \<open>Reset\<close>

text \<open>
  C9. \<open>Reset\<close> is one step that leaves the expectation list and the ledger empty and keeps
  \<open>MaxRequestBodySize\<close> and \<open>OnRequest\<close>.
\<close>

theorem C9_Reset_frame:
  "Expectations (Reset s) = [] \<and> Requests (Reset s) = []
   \<and> MaxRequestBodySize (Reset s) = MaxRequestBodySize s
   \<and> OnRequest (Reset s) = OnRequest s"
  by (simp add: Reset_def)

section \<open>The repeat cap\<close>

lemma sint_succ:
  fixes m n :: "64 word"
  assumes "m <s n"
  shows "sint (m + 1) = sint m + 1"
proof -
  from assms have lt: "sint m < sint n" by (simp add: word_sless_alt)
  have "sint n < 2 ^ (LENGTH(64) - 1)" by (rule sint_lt)
  with lt have up: "sint m + 1 < 2 ^ 63" by simp
  have "- (2 ^ (LENGTH(64) - 1)) \<le> sint m" by (rule sint_ge)
  then have lo: "- (2 ^ 63) \<le> sint m + 1" by simp
  have "sint (m + 1) = signed_take_bit (LENGTH(64) - 1) (sint m + sint (1 :: 64 word))"
    by (rule sint_word_ariths)
  also have "\<dots> = signed_take_bit 63 (sint m + 1)" by simp
  also have "\<dots> = sint m + 1" using lo up by (rule signed_take_bit_int_eq_self)
  finally show ?thesis .
qed

lemma bump_length [simp]: "length (bump i es) = length es"
  by (simp add: bump_def)

lemma bump_Times [simp]: "j < length es \<Longrightarrow> Times (bump i es ! j) = Times (es ! j)"
  by (cases "j = i") (simp_all add: bump_def)

lemma bump_MatchedTimes:
  "j < length es \<Longrightarrow>
   MatchedTimes (bump i es ! j) = MatchedTimes (es ! j) + (if j = i then 1 else 0)"
  by (cases "j = i") (simp_all add: bump_def)

lemma handler_length [simp]:
  "length (Expectations (fst (handler s r))) = length (Expectations s)"
  by (simp add: handler_Expectations split: option.splits)


lemma handler_MatchedTimes:
  "i < length (Expectations s) \<Longrightarrow>
   MatchedTimes (Expectations (fst (handler s r)) ! i) =
     MatchedTimes (Expectations s ! i) + (if Matched i \<in> set (snd (handler s r)) then 1 else 0)"
  by (auto simp: handler_Expectations Matched_in_handler bump_MatchedTimes split: option.splits)


lemma serve_length [simp]: "length (Expectations (serve s rs)) = length (Expectations s)"
  by (induction rs arbitrary: s) simp_all







section \<open>Verification\<close>

text \<open>
  The counters are counts: \<open>Expect\<close> registers an expectation with counter 0, and a run of
  the handler keeps every counter non-negative as long as none has reached the largest
  \<open>int\<close>.
\<close>

lemma below_max:
  fixes m :: "64 word"
  assumes "m \<noteq> 0x7FFFFFFFFFFFFFFF"
  shows "m <s 0x7FFFFFFFFFFFFFFF"
proof -
  have top: "sint (0x7FFFFFFFFFFFFFFF :: 64 word) = 9223372036854775807" by simp
  have "sint m < 2 ^ (LENGTH(64) - 1)" by (rule sint_lt)
  then have le: "sint m \<le> 9223372036854775807" by simp
  have "sint m \<noteq> sint (0x7FFFFFFFFFFFFFFF :: 64 word)"
    using assms signed_word_eqI by blast
  with le top show ?thesis by (simp add: word_sless_alt)
qed

lemma handler_counts:
  assumes "\<forall>e \<in> set (Expectations s). 0 \<le>s MatchedTimes e \<and> MatchedTimes e \<noteq> 0x7FFFFFFFFFFFFFFF"
  shows "\<forall>e \<in> set (Expectations (fst (handler s r))). 0 \<le>s MatchedTimes e"
proof
  fix e assume "e \<in> set (Expectations (fst (handler s r)))"
  then obtain j where j: "j < length (Expectations s)"
      and e: "e = Expectations (fst (handler s r)) ! j"
    by (metis in_set_conv_nth handler_length)
  let ?o = "Expectations s ! j"
  from j assms have old: "0 \<le>s MatchedTimes ?o" "MatchedTimes ?o \<noteq> 0x7FFFFFFFFFFFFFFF"
    by simp_all
  from old(2) have "MatchedTimes ?o <s 0x7FFFFFFFFFFFFFFF" by (rule below_max)
  then have "sint (MatchedTimes ?o + 1) = sint (MatchedTimes ?o) + 1" by (rule sint_succ)
  with old(1) have "0 \<le>s MatchedTimes ?o + 1" by (simp add: word_sle_eq)
  with old(1) show "0 \<le>s MatchedTimes e"
    using handler_MatchedTimes[OF j, of r] by (simp add: e)
qed

lemma Expect_counts:
  assumes "\<forall>e \<in> set (Expectations s). 0 \<le>s MatchedTimes e"
  shows "\<forall>e \<in> set (Expectations (fst (Expect s method path))). 0 \<le>s MatchedTimes e"
  using assms by (auto simp: Expect_def Let_def)

lemma fold_verifyOne:
  "fold verifyOne es t = t @ concat (map (\<lambda>e. verifyOne e []) es)"
proof (induction es arbitrary: t)
  case Nil
  then show ?case by simp
next
  case (Cons e es)
  have "verifyOne e t = t @ verifyOne e []" by (simp add: verifyOne_def)
  with Cons.IH[of "verifyOne e t"] show ?case by simp
qed

lemma counted_iff: "0 \<le>s (m :: 64 word) \<Longrightarrow> m \<noteq> 0 \<longleftrightarrow> 1 \<le>s m"
proof -
  assume "0 \<le>s m"
  then have nn: "0 \<le> sint m" by (simp add: word_sle_eq)
  have z: "m = 0 \<longleftrightarrow> sint m = 0" by (simp add: signed_eq_0_iff)
  have o: "1 \<le>s m \<longleftrightarrow> 1 \<le> sint m" by (simp add: word_sle_eq)
  from nn z o show ?thesis by linarith
qed

lemma verifyOne_passes:
  "0 \<le>s MatchedTimes e \<Longrightarrow>
   verifyOne e [] = [] \<longleftrightarrow>
     1 \<le>s MatchedTimes e \<and> \<not> (0 <s Times e \<and> MatchedTimes e <s Times e)"
  using counted_iff[of "MatchedTimes e"] by (auto simp: verifyOne_def)

text \<open>
  C5. In a state whose counters are counts (none is negative, as after any run that started
  from registration), \<open>Verify\<close> reports no failure if and only if every registered
  expectation has \<open>matchedTimes \<ge> 1\<close> and it is not the case that \<open>times > 0\<close> and
  \<open>matchedTimes < times\<close>; an expectation with \<open>times = 0\<close> matched at least once adds no
  failure whatever its count; and \<open>Verify\<close> returns the server as it was.
\<close>

theorem C5_Verify:
  assumes "\<forall>e \<in> set (Expectations s). 0 \<le>s MatchedTimes e"
  shows "(snd (Verify s t) = t \<longleftrightarrow>
           (\<forall>e \<in> set (Expectations s).
              1 \<le>s MatchedTimes e \<and> \<not> (0 <s Times e \<and> MatchedTimes e <s Times e)))
    \<and> (\<not> Failed (snd (Verify s [])) \<longleftrightarrow>
           (\<forall>e \<in> set (Expectations s).
              1 \<le>s MatchedTimes e \<and> \<not> (0 <s Times e \<and> MatchedTimes e <s Times e)))
    \<and> (\<forall>e \<in> set (Expectations s). Times e = 0 \<and> 1 \<le>s MatchedTimes e \<longrightarrow> verifyOne e t = t)
    \<and> fst (Verify s t) = s"
proof -
  let ?ok = "\<lambda>e. 1 \<le>s MatchedTimes e \<and> \<not> (0 <s Times e \<and> MatchedTimes e <s Times e)"
  have all: "concat (map (\<lambda>e. verifyOne e []) (Expectations s)) = [] \<longleftrightarrow>
      (\<forall>e \<in> set (Expectations s). ?ok e)"
    using assms verifyOne_passes by auto
  have a: "snd (Verify s t) = t \<longleftrightarrow> (\<forall>e \<in> set (Expectations s). ?ok e)"
    using all by (simp add: Verify_def fold_verifyOne)
  have b: "\<not> Failed (snd (Verify s [])) \<longleftrightarrow> (\<forall>e \<in> set (Expectations s). ?ok e)"
    using all by (simp add: Verify_def fold_verifyOne Failed_def)
  have c: "\<forall>e \<in> set (Expectations s). Times e = 0 \<and> 1 \<le>s MatchedTimes e \<longrightarrow> verifyOne e t = t"
    by (auto simp: verifyOne_def word_sle_eq word_sless_alt)
  have d: "fst (Verify s t) = s" by (simp add: Verify_def)
  from a b c d show ?thesis by blast
qed

text \<open>
  C5 on \<open>TestVerify\<close>: \<open>Verify\<close> fails before the request to \<open>/ping\<close> and passes after it.
\<close>

theorem C5_Verify_witness:
  "list_all (\<lambda>e. 0 \<le>s MatchedTimes e) (Expectations pingServer)
   \<and> list_all (\<lambda>e. 0 \<le>s MatchedTimes e) (Expectations (fst (handler pingServer getPing)))
   \<and> Failed (snd (Verify pingServer []))
   \<and> \<not> Failed (snd (Verify (fst (handler pingServer getPing)) []))"
proof -
  have e0: "Expectations pingServer =
      [\<lparr>Method = ''GET'', Path = ''/ping'', StatusCode = 200, Body = ''pong'', Header = [],
        Times = 0, MatchedTimes = 0, DelayTime = 0, Func = None, QueryParams = []\<rparr>]"
    by (simp add: pingServer_def configure_def Expect_def createServer_def Response_def)
  have e1: "Expectations (fst (handler pingServer getPing)) =
      [\<lparr>Method = ''GET'', Path = ''/ping'', StatusCode = 200, Body = ''pong'', Header = [],
        Times = 0, MatchedTimes = 1, DelayTime = 0, Func = None, QueryParams = []\<rparr>]"
    by (simp add: run_defs pingServer_def getPing_def)
  have h0: "\<forall>e \<in> set (Expectations pingServer). 0 \<le>s MatchedTimes e"
    by (simp add: e0)
  have h1: "\<forall>e \<in> set (Expectations (fst (handler pingServer getPing))). 0 \<le>s MatchedTimes e"
    by (simp add: e1 word_sle_eq)
  have f0: "Failed (snd (Verify pingServer []))"
    using C5_Verify[OF h0, of "[]"] by (simp add: e0 word_sle_eq)
  have f1: "\<not> Failed (snd (Verify (fst (handler pingServer getPing)) []))"
    using C5_Verify[OF h1, of "[]"] by (simp add: e1 word_sle_eq word_sless_alt Failed_def)
  from h0 h1 f0 f1 show ?thesis by (simp add: list_all_iff)
qed

section \<open>The lock and the response writer along a run\<close>

lemma heldAfter_append [simp]: "heldAfter h (xs @ ys) = heldAfter (heldAfter h xs) ys"
  by (induction h xs rule: heldAfter.induct) simp_all

lemma heldAfter_map_W [simp]: "heldAfter h (map W cs) = h"
  by (induction cs) simp_all

lemma underLock_append [simp]:
  "underLock h (xs @ ys) = underLock h xs @ underLock (heldAfter h xs) ys"
  by (induction h xs rule: underLock.induct) simp_all

lemma underLock_map_W [simp]: "underLock h (map W cs) = map (\<lambda>c. (W c, h)) cs"
  by (induction cs) simp_all

lemma inPlace_map_W [simp]: "list_all inPlace (map (\<lambda>c. (W c, True)) cs)"
  by (induction cs) simp_all

lemma notify_events:
  "fst (notify s c) = [] \<or> fst (notify s c) = [Notify c]"
  by (simp add: notify_def split: option.splits)

lemma notify_held [simp]: "heldAfter h (fst (notify s c)) = h"
  using notify_events[of s c] by auto

lemma notify_inPlace [simp]: "list_all inPlace (underLock True (fst (notify s c)))"
  using notify_events[of s c] by auto












lemma bodyOf_append [simp]: "bodyOf (xs @ ys) = bodyOf xs @ bodyOf ys"
  by (induction xs rule: bodyOf.induct) simp_all


lemma writes_notify [simp]: "writes (fst (notify s c)) = []"
  using notify_events[of s c] by auto








section \<open>The recovery boundary\<close>




section \<open>Where the handler holds the lock\<close>

lemma Sleep_in_notify [simp]: "Sleep d \<notin> set (fst (notify s c))"
  using notify_events[of s c] by auto









end
